theory Spec2Isabelle
  imports Main
begin

section \<open>Text on the wire\<close>

text \<open>
  JavaScript strings are modelled as \<^typ>\<open>string\<close>; a \<^typ>\<open>char\<close> stands for one code unit
  below 256.  \<open>JSON.stringify\<close> of a string quotes it: the double quote, the backslash and
  the control characters below 0x20 are escaped, every other code unit is copied.
\<close>

definition hex_digit :: "nat \<Rightarrow> char" where
  "hex_digit n = ''0123456789abcdef'' ! (n mod 16)"

definition json_escape :: "char \<Rightarrow> string" where
  "json_escape c =
     (if c = CHR 0x22 then [CHR 0x5C, CHR 0x22]
      else if c = CHR 0x5C then [CHR 0x5C, CHR 0x5C]
      else if c = CHR 0x08 then [CHR 0x5C, CHR ''b'']
      else if c = CHR 0x0C then [CHR 0x5C, CHR ''f'']
      else if c = CHR 0x0A then [CHR 0x5C, CHR ''n'']
      else if c = CHR 0x0D then [CHR 0x5C, CHR ''r'']
      else if c = CHR 0x09 then [CHR 0x5C, CHR ''t'']
      else if (of_char c :: nat) < 32
        then [CHR 0x5C, CHR ''u'', CHR ''0'', CHR ''0'',
              hex_digit (of_char c div 16), hex_digit (of_char c)]
      else [c])"

definition json_quote :: "string \<Rightarrow> string" where
  \<open>json_quote s = ''"'' @ concat (map json_escape s) @ ''"''\<close>

text \<open>
  The three event payloads \<open>JSON.stringify({ type: ..., content: ... })\<close> and the
  server-sent-events framing \<open>`data: ${...}\n\n`\<close> of lines 421-447 and 457 of index.js.
\<close>

definition json_event :: "string \<Rightarrow> string \<Rightarrow> string" where
  \<open>json_event ty content =
     ''{"type":'' @ json_quote ty @ '',"content":'' @ json_quote content @ ''}''\<close>

definition sse :: "string \<Rightarrow> string" where
  "sse payload = ''data: '' @ payload @ [CHR 0x0A, CHR 0x0A]"

definition status_frame :: "string \<Rightarrow> string" where
  "status_frame status = sse (json_event ''status'' status)"

definition message_frame :: "string \<Rightarrow> string" where
  "message_frame text = sse (json_event ''message'' text)"

definition error_frame :: "string \<Rightarrow> string" where
  "error_frame reason = sse (json_event ''error'' reason)"

definition done_frame :: string where
  "done_frame = sse ''[DONE]''"

text \<open>The kind of a chunk on the wire, read off the text before the content field.\<close>

definition starts_with :: "string \<Rightarrow> string \<Rightarrow> bool" where
  "starts_with p s = (take (length p) s = p)"

definition is_status_frame :: "string \<Rightarrow> bool" where
  \<open>is_status_frame chunk = starts_with ''data: {"type":"status",'' chunk\<close>

definition is_message_frame :: "string \<Rightarrow> bool" where
  \<open>is_message_frame chunk = starts_with ''data: {"type":"message",'' chunk\<close>

definition is_error_frame :: "string \<Rightarrow> bool" where
  \<open>is_error_frame chunk = starts_with ''data: {"type":"error",'' chunk\<close>

definition is_terminal_frame :: "string \<Rightarrow> bool" where
  "is_terminal_frame chunk = (is_message_frame chunk \<or> is_error_frame chunk)"

text \<open>The frame lines 431-436 or 443-448 write for a terminal status.\<close>

definition terminal_frame :: "string \<Rightarrow> string \<Rightarrow> string" where
  "terminal_frame final text =
     (if final = ''completed'' then message_frame text else error_frame (''Run '' @ final))"

section \<open>Errors, the upstream client and the server's shared state\<close>

text \<open>A thrown JavaScript error: its class, its message and the optional \<open>status\<close> field
  that \<open>errorHandler\<close> reads.\<close>

record error =
  err_class :: string
  message :: string
  status :: "nat option"

definition TypeError :: "string \<Rightarrow> error" where
  "TypeError m = \<lparr>err_class = ''TypeError'', message = m, status = None\<rparr>"

definition ReferenceError :: "string \<Rightarrow> error" where
  "ReferenceError m = \<lparr>err_class = ''ReferenceError'', message = m, status = None\<rparr>"


definition Error :: "string \<Rightarrow> error" where
  "Error m = \<lparr>err_class = ''Error'', message = m, status = None\<rparr>"

text \<open>
  openaiInstance.js: \<open>createOpenAIInstance\<close> reads the key through \<open>getApiKey()\<close> and
  returns an axios instance with a base URL and three default headers.  A template literal
  renders an undefined key as the text \<open>undefined\<close>.
\<close>

record client =
  baseURL :: string
  headers :: "(string \<times> string) list"

definition template_text :: "string option \<Rightarrow> string" where
  "template_text v = (case v of None \<Rightarrow> ''undefined'' | Some s \<Rightarrow> s)"

definition OPENAI_API_BASE :: string where
  "OPENAI_API_BASE = ''https://api.openai.com/v1''"

text \<open>
  apiKeyManager.js holds one module variable, \<open>OPENAI_API_KEY\<close>, absent when the process
  environment has no key; \<open>getApiKey\<close> and \<open>setApiKey\<close> read and replace it.
\<close>

definition getApiKey :: "string option \<Rightarrow> string option" where
  "getApiKey OPENAI_API_KEY_var = OPENAI_API_KEY_var"

definition setApiKey :: "string \<Rightarrow> string option \<Rightarrow> string option" where
  "setApiKey apiKey OPENAI_API_KEY_var = Some apiKey"

definition createOpenAIInstance :: "string option \<Rightarrow> client" where
  "createOpenAIInstance OPENAI_API_KEY_var =
     (let apiKey = getApiKey OPENAI_API_KEY_var in
      \<lparr>baseURL = OPENAI_API_BASE,
       headers = [(''Content-Type'', ''application/json''),
                  (''Authorization'', ''Bearer '' @ template_text apiKey),
                  (''OpenAI-Beta'', ''assistants=v2'')]\<rparr>)"

text \<open>The two module variables a request can change: \<open>OPENAI_API_KEY\<close> of
  apiKeyManager.js and \<open>openai\<close> of index.js (line 29), which every route reads when it
  makes an upstream call.\<close>

record server =
  OPENAI_API_KEY :: "string option"
  openai :: client

text \<open>The server as it starts: line 29 builds the client from the key of the process
  environment.\<close>

definition boot :: "string option \<Rightarrow> server" where
  "boot env_key = \<lparr>OPENAI_API_KEY = env_key, openai = createOpenAIInstance env_key\<rparr>"

text \<open>
  The /set-api-key handler (lines 596-605).  The body's \<open>apiKey\<close> is absent or a string;
  \<open>!apiKey\<close> holds for an absent key and for the empty string.  The handler returns the
  HTTP status and the JSON body it answers with, and the server's new variables.
\<close>

definition set_api_key_handler :: "string option \<Rightarrow> server \<Rightarrow> (nat \<times> string) \<times> server" where
  \<open>set_api_key_handler apiKey srv =
     (case apiKey of
        None \<Rightarrow> ((400, ''{"error":"API key is required"}''), srv)
      | Some k \<Rightarrow>
         if k = [] then ((400, ''{"error":"API key is required"}''), srv)
         else
           let key' = setApiKey k (OPENAI_API_KEY srv)
           in ((200, ''{"message":"API key set successfully"}''),
               srv\<lparr>OPENAI_API_KEY := key', openai := createOpenAIInstance key'\<rparr>))\<close>

section \<open>The run status streamer (lines 403-460)\<close>

text \<open>
  What the handler does to the outside is kept as a trace: the response head, each upstream
  GET with the client it went through, each \<open>res.write\<close> with the boolean it returned, each
  awaited timer, \<open>res.end\<close>, what \<open>errorHandler\<close> prints and sends, and for the upload
  route the log line, the opening of the temporary file, the upstream POST with its headers
  and the deletion of the temporary file.
\<close>

datatype effect =
    WriteHead nat "(string \<times> string) list"
  | Get client string
  | Write string bool
  | Sleep nat
  | End
  | ConsoleError string
  | Json nat string
  | ConsoleLog string
  | CreateReadStream string
  | Post client string "(string \<times> string) list"
  | Unlink string

record state =
  srv :: server
  trace :: "effect list"

definition emit :: "effect \<Rightarrow> state \<Rightarrow> state" where
  "emit e s = s\<lparr>trace := trace s @ [e]\<rparr>"

text \<open>An upstream message: its ordered content blocks.  Only a text block has a
  \<open>text.value\<close>; for every other block (an image, say) \<open>text\<close> is undefined.\<close>

datatype content_block = TextBlock string | OtherBlock string

record thread_message =
  content :: "content_block list"

text \<open>
  What the outside world does during one streaming request:
  \<^item> \<open>run_results i\<close>: how the GET of poll \<open>i\<close> settles, rejected with an error or resolved
    with \<open>data.status\<close>, a string of the upstream's choice;
  \<^item> \<open>messages_result\<close>: how the GET of the message list settles (\<open>data.data\<close>);
  \<^item> \<open>accepts k\<close>: what the \<open>k\<close>-th \<open>res.write\<close> returns; false once the client is gone.
    Node reports an unwritable socket through this boolean and the callback of the write,
    never by throwing;
  \<^item> \<open>during_get i\<close>, \<open>during_messages_get\<close>, \<open>during_sleep i\<close>: the bodies of the /set-api-key
    requests the server handles while the stream awaits poll \<open>i\<close>'s GET, the message GET,
    and the timer after poll \<open>i\<close>.  The event loop runs each such handler to its end.
\<close>

record environment =
  run_results :: "nat \<Rightarrow> error + string"
  messages_result :: "error + thread_message list"
  accepts :: "nat \<Rightarrow> bool"
  during_get :: "nat \<Rightarrow> string option list"
  during_messages_get :: "string option list"
  during_sleep :: "nat \<Rightarrow> string option list"

fun writes :: "effect list \<Rightarrow> string list" where
  "writes [] = []"
| "writes (Write chunk ok # es) = chunk # writes es"
| "writes (_ # es) = writes es"

fun gets :: "effect list \<Rightarrow> (client \<times> string) list" where
  "gets [] = []"
| "gets (Get c url # es) = (c, url) # gets es"
| "gets (_ # es) = gets es"

fun sleeps :: "effect list \<Rightarrow> nat list" where
  "sleeps [] = []"
| "sleeps (Sleep ms # es) = ms # sleeps es"
| "sleeps (_ # es) = sleeps es"

definition res_write :: "environment \<Rightarrow> string \<Rightarrow> state \<Rightarrow> state" where
  "res_write env chunk s = emit (Write chunk (accepts env (length (writes (trace s))))) s"

definition openai_get :: "string \<Rightarrow> state \<Rightarrow> state" where
  "openai_get url s = emit (Get (openai (srv s)) url) s"

definition serve :: "string option list \<Rightarrow> state \<Rightarrow> state" where
  "serve bodies s = s\<lparr>srv := fold (\<lambda>apiKey sv. snd (set_api_key_handler apiKey sv)) bodies (srv s)\<rparr>"

definition run_url :: "string \<Rightarrow> string \<Rightarrow> string" where
  "run_url thread_id run_id = ''/threads/'' @ thread_id @ ''/runs/'' @ run_id"

definition messages_url :: "string \<Rightarrow> string" where
  "messages_url thread_id = ''/threads/'' @ thread_id @ ''/messages''"

text \<open>\<open>messages[0].content[0].text.value\<close> (lines 430 and 434): reading a property of
  undefined throws a TypeError.\<close>

definition latest_text :: "thread_message list \<Rightarrow> error + string" where
  "latest_text messages =
     (case messages of
        [] \<Rightarrow> Inl (TypeError ''Cannot read properties of undefined (reading content)'')
      | latestMessage # _ \<Rightarrow>
         (case content latestMessage of
            [] \<Rightarrow> Inl (TypeError ''Cannot read properties of undefined (reading text)'')
          | TextBlock v # _ \<Rightarrow> Inr v
          | OtherBlock _ # _ \<Rightarrow>
              Inl (TypeError ''Cannot read properties of undefined (reading value)'')))"

text \<open>One pass through the body of \<open>while (true)\<close> (lines 416-452), for poll number \<open>i\<close>.\<close>

datatype step = Continue state | Break state | Throw error state

fun step_state :: "step \<Rightarrow> state" where
  "step_state (Continue s) = s"
| "step_state (Break s) = s"
| "step_state (Throw e s) = s"

definition poll_once :: "environment \<Rightarrow> string \<Rightarrow> string \<Rightarrow> nat \<Rightarrow> state \<Rightarrow> step" where
  "poll_once env thread_id run_id i s =
     (let s1 = serve (during_get env i) (openai_get (run_url thread_id run_id) s) in
      case run_results env i of
        Inl err \<Rightarrow> Throw err s1
      | Inr run_status \<Rightarrow>
         let s2 = res_write env (status_frame run_status) s1 in
         if run_status = ''completed'' then
           let s3 = serve (during_messages_get env) (openai_get (messages_url thread_id) s2) in
           case messages_result env of
             Inl err \<Rightarrow> Throw err s3
           | Inr messages \<Rightarrow>
              (case latest_text messages of
                 Inl err \<Rightarrow> Throw err s3
               | Inr text \<Rightarrow> Break (res_write env (message_frame text) s3))
         else if run_status = ''failed'' \<or> run_status = ''cancelled'' \<or> run_status = ''expired''
           then Break (res_write env (error_frame (''Run '' @ run_status)) s2)
         else Continue (serve (during_sleep env i) (emit (Sleep 1000) s2)))"

text \<open>
  The loop itself.  It has no bound in the source, so the model counts iterations: with the
  count used up and the loop still running the result is \<open>Continue\<close> of the state reached;
  \<open>Break\<close> and \<open>Throw\<close> are the two ways the source leaves \<open>pollRunStatus\<close>.
\<close>

fun pollRunStatus :: "nat \<Rightarrow> environment \<Rightarrow> string \<Rightarrow> string \<Rightarrow> nat \<Rightarrow> state \<Rightarrow> step" where
  "pollRunStatus 0 env thread_id run_id i s = Continue s"
| "pollRunStatus (Suc fuel) env thread_id run_id i s =
     (case poll_once env thread_id run_id i s of
        Continue s' \<Rightarrow> pollRunStatus fuel env thread_id run_id (Suc i) s'
      | Break s' \<Rightarrow> Break s'
      | Throw err s' \<Rightarrow> Throw err s')"

text \<open>
  The async route function: the head, the loop, the sentinel, the end.  It is run until it
  settles or until \<open>fuel\<close> polls are used up: \<open>Continue\<close> is the state in which it is then
  suspended inside the loop, \<open>Throw\<close> a rejection of its promise, \<open>Break\<close> its normal return.
\<close>

definition stream_run_steps :: "nat \<Rightarrow> environment \<Rightarrow> string \<Rightarrow> string \<Rightarrow> state \<Rightarrow> step" where
  "stream_run_steps fuel env thread_id run_id s =
     (let s1 = emit (WriteHead 200 [(''Content-Type'', ''text/event-stream''),
                                    (''Cache-Control'', ''no-cache''),
                                    (''Connection'', ''keep-alive'')]) s in
      case pollRunStatus fuel env thread_id run_id 0 s1 of
        Continue s2 \<Rightarrow> Continue s2
      | Throw err s2 \<Rightarrow> Throw err s2
      | Break s2 \<Rightarrow> Break (emit End (res_write env done_frame s2)))"

text \<open>How the promise of the route function has settled; \<open>None\<close> while it is pending, the
  loop still running after \<open>fuel\<close> polls.\<close>

definition stream_run :: "nat \<Rightarrow> environment \<Rightarrow> string \<Rightarrow> string \<Rightarrow> state \<Rightarrow> ((error + unit) \<times> state) option" where
  "stream_run fuel env thread_id run_id s =
     (case stream_run_steps fuel env thread_id run_id s of
        Continue _ \<Rightarrow> None
      | Throw err s2 \<Rightarrow> Some (Inl err, s2)
      | Break s2 \<Rightarrow> Some (Inr (), s2))"

text \<open>
  \<open>errorHandler\<close> (lines 172-179) prints the error and answers with JSON.  Once the head of
  the response is out, Express cannot set the headers \<open>res.json\<close> needs: the call throws
  \<open>ERR_HTTP_HEADERS_SENT\<close> and writes nothing.
\<close>

fun sends_head :: "effect \<Rightarrow> bool" where
  "sends_head (WriteHead _ _) = True"
| "sends_head (Write _ _) = True"
| "sends_head End = True"
| "sends_head (Json _ _) = True"
| "sends_head _ = False"

definition headersSent :: "state \<Rightarrow> bool" where
  "headersSent s = list_ex sends_head (trace s)"

definition errorHandler :: "error \<Rightarrow> state \<Rightarrow> (error + unit) \<times> state" where
  \<open>errorHandler err s =
     (let s1 = emit (ConsoleError (message err)) s;
          code = (case status err of None \<Rightarrow> 500 | Some c \<Rightarrow> if c = 0 then 500 else c);
          msg = (if message err = [] then ''Internal Server Error'' else message err)
      in if headersSent s1
         then (Inl (Error ''Cannot set headers after they are sent to the client''), s1)
         else (Inr (), emit (Json code (''{"error":{"message":'' @ json_quote msg @ ''}}'')) s1))\<close>

text \<open>\<open>asyncHandler\<close> (lines 182-183): a rejection of the route function goes to \<open>next\<close>,
  which is \<open>errorHandler\<close> (line 608).\<close>

definition asyncHandler ::
  "(error + unit) \<times> state \<Rightarrow> (error \<Rightarrow> state \<Rightarrow> (error + unit) \<times> state)
     \<Rightarrow> (error + unit) \<times> state" where
  "asyncHandler settled next =
     (case settled of
        (Inl err, s) \<Rightarrow> next err s
      | (Inr u, s) \<Rightarrow> (Inr u, s))"

text \<open>POST /stream-run/:thread_id/:run_id on a server with variables \<open>sv\<close>.\<close>

definition stream_run_route :: "nat \<Rightarrow> environment \<Rightarrow> string \<Rightarrow> string \<Rightarrow> server \<Rightarrow> ((error + unit) \<times> state) option" where
  "stream_run_route fuel env thread_id run_id sv =
     map_option (\<lambda>settled. asyncHandler settled errorHandler)
       (stream_run fuel env thread_id run_id \<lparr>srv = sv, trace = []\<rparr>)"

text \<open>The four tags on which the loop body ends with \<open>break\<close>.\<close>

definition is_terminal :: "string \<Rightarrow> bool" where
  "is_terminal tag = (tag = ''completed'' \<or> tag = ''failed'' \<or> tag = ''cancelled'' \<or> tag = ''expired'')"


text \<open>The tags that polls \<open>i\<close> to \<open>i + m - 1\<close> return, in poll order (a rejected GET returns
  none), and the number of GETs of the run in a trace.\<close>

definition returned_statuses :: "environment \<Rightarrow> nat \<Rightarrow> nat \<Rightarrow> string list" where
  "returned_statuses env i m =
     concat (map (\<lambda>j. case run_results env j of Inl err \<Rightarrow> [] | Inr tag \<Rightarrow> [tag]) [i..<i + m])"

definition polls :: "string \<Rightarrow> string \<Rightarrow> effect list \<Rightarrow> nat" where
  "polls thread_id run_id tr = length (filter (\<lambda>(c, url). url = run_url thread_id run_id) (gets tr))"

text \<open>
  To compare two runs up to what the socket answered: a trace with the boolean of every
  \<open>res.write\<close> blanked.
\<close>

fun unanswered :: "effect \<Rightarrow> effect" where
  "unanswered (Write chunk ok) = Write chunk True"
| "unanswered e = e"

definition blank :: "state \<Rightarrow> state" where
  "blank s = s\<lparr>trace := map unanswered (trace s)\<rparr>"

fun map_step :: "(state \<Rightarrow> state) \<Rightarrow> step \<Rightarrow> step" where
  "map_step f (Continue s) = Continue (f s)"
| "map_step f (Break s) = Break (f s)"
| "map_step f (Throw err s) = Throw err (f s)"

section \<open>Tool-call dispatch (lines 557-577)\<close>

















section \<open>File upload (lines 463-500)\<close>

text \<open>
  Every identifier bound where line 484 stands: the parameters and constants of the route
  function, then the imports and the module-level declarations of index.js.
  \<open>OPENAI_API_KEY\<close> is none of them: the module imports \<open>setApiKey\<close> only.
\<close>

definition index_js_bindings :: "string list" where
  "index_js_bindings =
     [''express'', ''dotenv'', ''multer'', ''fs'', ''path'', ''rateLimit'', ''helmet'', ''uuidv4'',
      ''cors'', ''fileURLToPath'', ''dirname'', ''FormData'', ''setApiKey'', ''createOpenAIInstance'',
      ''__filename'', ''__dirname'', ''app'', ''openai'', ''currentRateLimit'', ''currentFileSize'',
      ''getLimiter'', ''getUpload'', ''storage'', ''errorHandler'', ''asyncHandler'',
      ''handleToolCalls'', ''PORT'']"

definition upload_scope :: "string list" where
  "upload_scope = [''req'', ''res'', ''form'', ''response''] @ index_js_bindings"

record uploaded_file =
  path :: string
  originalname :: string
  mimetype :: string

record upload_request =
  req_file :: "uploaded_file option"
  purpose :: "string option"

text \<open>
  An identifier that no scope of the module binds is looked up on the global object when it
  is read.  A property of the global object, as a template literal sees it: absent, a value
  with its text, or a value that throws when it is read or converted.  The global object
  changes while the server runs: line 566 runs any global function a client names, \<open>eval\<close>
  among them.
\<close>

datatype property = Absent | Text string | Throwing error

text \<open>
  The outside of one upload: the global object as line 484 finds it, the text each bound
  identifier has in a template literal, the headers \<open>form.getHeaders()\<close> returns, how the POST
  settles (\<open>response.data\<close> as JSON text), and the error of \<open>fs.unlinkSync\<close> if it throws.
\<close>

record upload_environment =
  global_object :: "string \<Rightarrow> property"
  identifier_text :: "string \<Rightarrow> string"
  form_headers :: "(string \<times> string) list"
  post_result :: "error + string"
  unlink_error :: "error option"

definition read_identifier :: "upload_environment \<Rightarrow> string \<Rightarrow> error + string" where
  "read_identifier uenv x =
     (if x \<in> set upload_scope then Inr (identifier_text uenv x)
      else case global_object uenv x of
             Absent \<Rightarrow> Inl (ReferenceError (x @ '' is not defined''))
           | Text v \<Rightarrow> Inr v
           | Throwing err \<Rightarrow> Inl err)"

text \<open>The \<open>try\<close> block (lines 481-491): the argument list of \<open>openai.post\<close> is evaluated
  before the call, and the headers object reads \<open>OPENAI_API_KEY\<close>.\<close>

definition upload_try :: "upload_environment \<Rightarrow> uploaded_file \<Rightarrow> state \<Rightarrow> (error \<times> state) + state" where
  "upload_try uenv f s =
     (case read_identifier uenv ''OPENAI_API_KEY'' of
        Inl err \<Rightarrow> Inl (err, s)
      | Inr key \<Rightarrow>
         let s1 = emit (Post (openai (srv s)) ''/files''
                          (form_headers uenv @ [(''Authorization'', ''Bearer '' @ key)])) s in
         (case post_result uenv of
            Inl err \<Rightarrow> Inl (err, s1)
          | Inr data \<Rightarrow>
             let s2 = emit (Unlink (path f)) s1 in
             (case unlink_error uenv of
                Some err \<Rightarrow> Inl (err, s2)
              | None \<Rightarrow> Inr (emit (Json 200 data) s2))))"

text \<open>The route function.  In the \<open>catch\<close> block the source prints the body of the upstream's
  answer when the error has one; the trace keeps the message.\<close>

definition upload_file :: "upload_environment \<Rightarrow> upload_request \<Rightarrow> state \<Rightarrow> (error + unit) \<times> state" where
  "upload_file uenv req s =
     (case req_file req of
        None \<Rightarrow> (Inl (Error ''No file uploaded''), s)
      | Some f \<Rightarrow>
         let s1 = emit (ConsoleLog ''File uploaded:'') s;
             s2 = emit (CreateReadStream (path f)) s1
         in case upload_try uenv f s2 of
              Inr s3 \<Rightarrow> (Inr (), s3)
            | Inl (err, s3) \<Rightarrow>
                (Inl (Error ''Failed to upload file to OpenAI''),
                 emit (ConsoleError (''Error uploading file to OpenAI: '' @ message err)) s3))"

text \<open>POST /upload-file once multer has stored the file in \<open>req.file\<close>.\<close>

definition upload_file_route :: "upload_environment \<Rightarrow> upload_request \<Rightarrow> server \<Rightarrow> (error + unit) \<times> state" where
  "upload_file_route uenv req sv =
     asyncHandler (upload_file uenv req \<lparr>srv = sv, trace = []\<rparr>) errorHandler"

section \<open>Example runs\<close>

text \<open>
  A connected client, no key rotation, a thread whose newest message is one text block, and
  a run that reports the given tags poll by poll and \<open>in_progress\<close> ever after.
\<close>

definition scenario :: "string list \<Rightarrow> environment" where
  "scenario tags =
     \<lparr>run_results = (\<lambda>i. if i < length tags then Inr (tags ! i) else Inr ''in_progress''),
      messages_result = Inr [\<lparr>content = [TextBlock ''Hello'']\<rparr>],
      accepts = (\<lambda>k. True),
      during_get = (\<lambda>i. []),
      during_messages_get = [],
      during_sleep = (\<lambda>i. [])\<rparr>"

text \<open>The same thread after the assistant answered with a picture and a caption: the newest
  message holds an image block before its text block.\<close>

definition image_first :: environment where
  "image_first =
     (scenario [''completed''])
       \<lparr>messages_result := Inr [\<lparr>content = [OtherBlock ''image_file'', TextBlock ''Hello'']\<rparr>]\<rparr>"

text \<open>A run that completes at the first poll on a thread that has no message.\<close>

definition empty_thread :: environment where
  "empty_thread = (scenario [''completed''])\<lparr>messages_result := Inr []\<rparr>"



text \<open>A run that stays \<open>in_progress\<close> while the client disconnects after the second status
  frame: from the third \<open>res.write\<close> on the socket takes nothing.\<close>

definition client_gone :: environment where
  "client_gone = (scenario [])\<lparr>accepts := (\<lambda>k. k < 2)\<rparr>"

text \<open>A run that stays \<open>in_progress\<close> while, during the timer after the first poll, the
  server handles a /set-api-key request with the key \<open>sk-new\<close>.\<close>

definition key_rotated :: environment where
  "key_rotated = (scenario [])\<lparr>during_sleep := (\<lambda>i. if i = 0 then [Some ''sk-new''] else [])\<rparr>"



text \<open>
  An upload as multer hands it to the route and an upstream that would accept it, first
  with the global object of a server just started, which has \<open>process\<close>, \<open>console\<close> and the
  like and no \<open>OPENAI_API_KEY\<close>, then with the global object after a POST to /execute-tools
  whose tool call named \<open>eval\<close> with the program \<open>globalThis.OPENAI_API_KEY = 'sk-live'\<close>.
\<close>

definition sample_upload :: upload_request where
  "sample_upload =
     \<lparr>req_file = Some \<lparr>path = ''uploads/1.txt'', originalname = ''notes.txt'',
                        mimetype = ''text/plain''\<rparr>,
      purpose = None\<rparr>"

definition upstream_ready :: upload_environment where
  \<open>upstream_ready =
     \<lparr>global_object = (\<lambda>x. if x \<in> set [''process'', ''console'', ''global'', ''JSON'', ''Promise'']
                            then Text ''[object Object]'' else Absent),
      identifier_text = (\<lambda>x. ''[object Object]''),
      form_headers = [(''content-type'', ''multipart/form-data; boundary=x'')],
      post_result = Inr ''{"id":"file-1"}'',
      unlink_error = None\<rparr>\<close>

definition key_on_global :: upload_environment where
  "key_on_global =
     upstream_ready
       \<lparr>global_object := (\<lambda>x. if x = ''OPENAI_API_KEY'' then Text ''sk-live''
                               else global_object upstream_ready x)\<rparr>"

definition fresh :: state where
  "fresh = \<lparr>srv = boot (Some ''sk-old''), trace = []\<rparr>"

section \<open>Traces and frames\<close>

lemma writes_append [simp]: "writes (xs @ ys) = writes xs @ writes ys"
  by (induction xs rule: writes.induct) simp_all

lemma gets_append [simp]: "gets (xs @ ys) = gets xs @ gets ys"
  by (induction xs rule: gets.induct) simp_all

lemma sleeps_append [simp]: "sleeps (xs @ ys) = sleeps xs @ sleeps ys"
  by (induction xs rule: sleeps.induct) simp_all

lemma emit_simps [simp]: "trace (emit e s) = trace s @ [e]" "srv (emit e s) = srv s"
  by (simp_all add: emit_def)

lemma serve_simps [simp]: "trace (serve bodies s) = trace s"
  by (simp add: serve_def)

lemma res_write_simps [simp]:
  "trace (res_write env chunk s) = trace s @ [Write chunk (accepts env (length (writes (trace s))))]"
  "srv (res_write env chunk s) = srv s"
  by (simp_all add: res_write_def)

lemma openai_get_simps [simp]:
  "trace (openai_get url s) = trace s @ [Get (openai (srv s)) url]"
  "srv (openai_get url s) = srv s"
  by (simp_all add: openai_get_def)

lemma json_quote_status: \<open>json_quote ''status'' = ''"status"''\<close>
  by (simp add: json_quote_def json_escape_def)

lemma json_quote_message: \<open>json_quote ''message'' = ''"message"''\<close>
  by (simp add: json_quote_def json_escape_def)

lemma json_quote_error: \<open>json_quote ''error'' = ''"error"''\<close>
  by (simp add: json_quote_def json_escape_def)

lemma status_frame_kind [simp]:
  "is_status_frame (status_frame tag)" "\<not> is_message_frame (status_frame tag)"
  "\<not> is_error_frame (status_frame tag)" "status_frame tag \<noteq> done_frame"
  by (simp_all add: is_status_frame_def is_message_frame_def is_error_frame_def starts_with_def
      status_frame_def sse_def json_event_def json_quote_status done_frame_def)

lemma message_frame_kind [simp]:
  "\<not> is_status_frame (message_frame text)" "is_message_frame (message_frame text)"
  "\<not> is_error_frame (message_frame text)" "message_frame text \<noteq> done_frame"
  by (simp_all add: is_status_frame_def is_message_frame_def is_error_frame_def starts_with_def
      message_frame_def sse_def json_event_def json_quote_message done_frame_def)

lemma error_frame_kind [simp]:
  "\<not> is_status_frame (error_frame reason)" "\<not> is_message_frame (error_frame reason)"
  "is_error_frame (error_frame reason)" "error_frame reason \<noteq> done_frame"
  by (simp_all add: is_status_frame_def is_message_frame_def is_error_frame_def starts_with_def
      error_frame_def sse_def json_event_def json_quote_error done_frame_def)

lemma done_frame_kind [simp]:
  "\<not> is_status_frame done_frame" "\<not> is_message_frame done_frame" "\<not> is_error_frame done_frame"
  by (simp_all add: is_status_frame_def is_message_frame_def is_error_frame_def starts_with_def
      sse_def done_frame_def)

lemma run_error_frames:
  \<open>error_frame ''Run failed'' = ''data: {"type":"error","content":"Run failed"}'' @ [CHR 0x0A, CHR 0x0A]\<close>
  \<open>error_frame ''Run cancelled'' = ''data: {"type":"error","content":"Run cancelled"}'' @ [CHR 0x0A, CHR 0x0A]\<close>
  \<open>error_frame ''Run expired'' = ''data: {"type":"error","content":"Run expired"}'' @ [CHR 0x0A, CHR 0x0A]\<close>
  by (simp_all add: error_frame_def sse_def json_event_def json_quote_def json_escape_def)

text \<open>Quoting loses nothing: two contents with the same frame are the same text.\<close>

lemma hex_digit_inject:
  "hex_digit a = hex_digit b \<Longrightarrow> a mod 16 = b mod 16"
proof -
  assume eq: "hex_digit a = hex_digit b"
  have d: "distinct ''0123456789abcdef''" by simp
  have "a mod 16 < length ''0123456789abcdef''" "b mod 16 < length ''0123456789abcdef''"
    by simp_all
  with d eq show ?thesis
    unfolding hex_digit_def by (simp only: nth_eq_iff_index_eq)
qed

lemma hex_digit_not_special [simp]:
  "hex_digit n \<noteq> CHR 0x22" "hex_digit n \<noteq> CHR 0x5C"
proof -
  have "hex_digit n \<in> set ''0123456789abcdef''"
    unfolding hex_digit_def by (rule nth_mem) simp
  then show "hex_digit n \<noteq> CHR 0x22" "hex_digit n \<noteq> CHR 0x5C"
    by auto
qed

lemma low_char_hex:
  assumes "(of_char c :: nat) < 32" "(of_char d :: nat) < 32"
    and "hex_digit (of_char c div 16) = hex_digit (of_char d div 16)"
    and "hex_digit (of_char c) = hex_digit (of_char d)"
  shows "c = d"
proof -
  let ?a = "of_char c :: nat" and ?b = "of_char d :: nat"
  from assms(3) have "(?a div 16) mod 16 = (?b div 16) mod 16" by (rule hex_digit_inject)
  moreover from assms(1,2) have "?a div 16 < 16" "?b div 16 < 16" by simp_all
  ultimately have hi: "?a div 16 = ?b div 16" by simp
  from assms(4) have lo: "?a mod 16 = ?b mod 16" by (rule hex_digit_inject)
  from hi lo have "?a = ?b" by (metis div_mult_mod_eq)
  then show ?thesis by (metis char_of_char)
qed

lemma json_escape_prefix_free:
  "json_escape c @ xs = json_escape d @ ys \<Longrightarrow> c = d \<and> xs = ys"
  by (auto simp add: json_escape_def low_char_hex split: if_splits)


lemma json_escape_head:
  "json_escape c \<noteq> []" "hd (json_escape c) \<noteq> CHR 0x22"
  by (simp_all add: json_escape_def)

lemma json_escapes_inject:
  "concat (map json_escape s) @ CHR 0x22 # xs = concat (map json_escape s') @ CHR 0x22 # ys
   \<Longrightarrow> s = s' \<and> xs = ys"
proof (induction s arbitrary: s')
  case Nil
  show ?case
  proof (cases s')
    case Nil
    with Nil.prems show ?thesis by simp
  next
    case (Cons d ds)
    with Nil.prems have "CHR 0x22 # xs = json_escape d @ concat (map json_escape ds) @ CHR 0x22 # ys"
      by simp
    then have "hd (json_escape d) = CHR 0x22"
      using json_escape_head(1) [of d] by (cases "json_escape d") simp_all
    with json_escape_head(2) show ?thesis by blast
  qed
next
  case (Cons c cs)
  show ?case
  proof (cases s')
    case Nil
    with Cons.prems have "json_escape c @ concat (map json_escape cs) @ CHR 0x22 # xs = CHR 0x22 # ys"
      by simp
    then have "hd (json_escape c) = CHR 0x22"
      using json_escape_head(1) [of c] by (cases "json_escape c") simp_all
    with json_escape_head(2) show ?thesis by blast
  next
    case (Cons d ds)
    with Cons.prems have
      "json_escape c @ (concat (map json_escape cs) @ CHR 0x22 # xs) =
       json_escape d @ (concat (map json_escape ds) @ CHR 0x22 # ys)"
      by simp
    from json_escape_prefix_free [OF this] Cons.IH [of ds] Cons show ?thesis
      by simp
  qed
qed

lemma json_quote_inject: "json_quote a @ xs = json_quote b @ ys \<Longrightarrow> a = b \<and> xs = ys"
  using json_escapes_inject [of a xs b ys] by (simp add: json_quote_def)

lemma status_frame_inject: "status_frame a = status_frame b \<Longrightarrow> a = b"
  using json_quote_inject [of a _ b] by (simp add: status_frame_def sse_def json_event_def)

lemma message_frame_inject: "message_frame a = message_frame b \<Longrightarrow> a = b"
  using json_quote_inject [of a _ b] by (simp add: message_frame_def sse_def json_event_def)

lemma error_frame_inject: "error_frame a = error_frame b \<Longrightarrow> a = b"
  using json_quote_inject [of a _ b] by (simp add: error_frame_def sse_def json_event_def)

lemma srv_serve [simp]:
  "srv (serve bodies s) = fold (\<lambda>apiKey sv. snd (set_api_key_handler apiKey sv)) bodies (srv s)"
  by (simp add: serve_def)

lemma urls_differ [simp]: "messages_url t \<noteq> run_url t r" "run_url t r \<noteq> messages_url t"
  by (simp_all add: messages_url_def run_url_def)

lemma poll_once_rejected:
  "run_results env i = Inl err \<Longrightarrow>
   poll_once env t r i s = Throw err (serve (during_get env i) (openai_get (run_url t r) s))"
  by (simp add: poll_once_def)

lemma poll_once_running:
  "run_results env i = Inr tag \<Longrightarrow> \<not> is_terminal tag \<Longrightarrow>
   poll_once env t r i s =
     Continue (serve (during_sleep env i) (emit (Sleep 1000)
       (res_write env (status_frame tag) (serve (during_get env i) (openai_get (run_url t r) s)))))"
  by (simp add: poll_once_def is_terminal_def)

lemma poll_once_failed:
  "run_results env i = Inr tag \<Longrightarrow> tag = ''failed'' \<or> tag = ''cancelled'' \<or> tag = ''expired'' \<Longrightarrow>
   poll_once env t r i s =
     Break (res_write env (error_frame (''Run '' @ tag))
       (res_write env (status_frame tag) (serve (during_get env i) (openai_get (run_url t r) s))))"
  by (auto simp add: poll_once_def)

lemma poll_once_completed:
  "run_results env i = Inr ''completed'' \<Longrightarrow>
   poll_once env t r i s =
     (let s3 = serve (during_messages_get env) (openai_get (messages_url t)
                 (res_write env (status_frame ''completed'')
                    (serve (during_get env i) (openai_get (run_url t r) s))))
      in case messages_result env of
           Inl err \<Rightarrow> Throw err s3
         | Inr messages \<Rightarrow>
            (case latest_text messages of
               Inl err \<Rightarrow> Throw err s3
             | Inr text \<Rightarrow> Break (res_write env (message_frame text) s3)))"
  by (simp add: poll_once_def)

lemma pollRunStatus_add:
  "pollRunStatus (m + n) env t r i s =
     (case pollRunStatus m env t r i s of
        Continue s' \<Rightarrow> pollRunStatus n env t r (i + m) s'
      | Break s' \<Rightarrow> Break s'
      | Throw err s' \<Rightarrow> Throw err s')"
  by (induction m arbitrary: i s) (simp_all split: step.splits)

lemma running_prefix:
  "\<forall>j<length pre. run_results env (i + j) = Inr (pre ! j) \<Longrightarrow>
   \<forall>tag\<in>set pre. \<not> is_terminal tag \<Longrightarrow>
   \<exists>s'. pollRunStatus (length pre) env t r i s = Continue s' \<and>
        writes (trace s') = writes (trace s) @ map status_frame pre \<and>
        sleeps (trace s') = sleeps (trace s) @ replicate (length pre) 1000 \<and>
        map snd (gets (trace s')) = map snd (gets (trace s)) @ replicate (length pre) (run_url t r) \<and>
        (End \<in> set (trace s') \<longleftrightarrow> End \<in> set (trace s))"
proof (induction pre arbitrary: i s)
  case Nil
  then show ?case by simp
next
  case (Cons tag pre)
  from Cons.prems(1) have here: "run_results env i = Inr tag" by auto
  from Cons.prems(2) have running: "\<not> is_terminal tag" by simp
  define s1 where "s1 = serve (during_sleep env i) (emit (Sleep 1000)
       (res_write env (status_frame tag) (serve (during_get env i) (openai_get (run_url t r) s))))"
  have step: "poll_once env t r i s = Continue s1"
    unfolding s1_def by (rule poll_once_running [OF here running])
  have later: "\<forall>j<length pre. run_results env (Suc i + j) = Inr (pre ! j)"
    using Cons.prems(1) by fastforce
  from Cons.prems(2) have rest: "\<forall>tag\<in>set pre. \<not> is_terminal tag" by simp
  from Cons.IH [OF later rest, of s1] obtain s' where
    s': "pollRunStatus (length pre) env t r (Suc i) s1 = Continue s'"
      "writes (trace s') = writes (trace s1) @ map status_frame pre"
      "sleeps (trace s') = sleeps (trace s1) @ replicate (length pre) 1000"
      "map snd (gets (trace s')) = map snd (gets (trace s1)) @ replicate (length pre) (run_url t r)"
      "(End \<in> set (trace s') \<longleftrightarrow> End \<in> set (trace s1))"
    by blast
  have "pollRunStatus (length (tag # pre)) env t r i s = Continue s'"
    using step s'(1) by simp
  moreover have "writes (trace s') = writes (trace s) @ map status_frame (tag # pre)"
    using s'(2) by (simp add: s1_def)
  moreover have "sleeps (trace s') = sleeps (trace s) @ replicate (length (tag # pre)) 1000"
    using s'(3) by (simp add: s1_def)
  moreover have "map snd (gets (trace s')) =
      map snd (gets (trace s)) @ replicate (length (tag # pre)) (run_url t r)"
    using s'(4) by (simp add: s1_def)
  moreover have "(End \<in> set (trace s') \<longleftrightarrow> End \<in> set (trace s))"
    using s'(5) by (simp add: s1_def)
  ultimately show ?case by blast
qed


section \<open>Terminal failure statuses\<close>

text \<open>
  C4.  When the GET of a poll returns \<open>failed\<close>, \<open>cancelled\<close> or \<open>expired\<close>, that pass through
  the loop body does not throw: it writes the status frame and then exactly one error frame
  whose content is \<open>Run\<close> followed by the status, a well-formed line of the event stream,
  and leaves the loop through \<open>break\<close>.
\<close>

theorem terminal_failure_emits_error_event:
  assumes \<open>run_results env i = Inr tag\<close>
    and \<open>tag = ''failed'' \<or> tag = ''cancelled'' \<or> tag = ''expired''\<close>
  shows \<open>\<exists>s'. poll_once env t r i s = Break s' \<and>
      pollRunStatus (Suc fuel) env t r i s = Break s' \<and>
      trace s' = trace s @
        [Get (openai (srv s)) (run_url t r),
         Write (status_frame tag) (accepts env (length (writes (trace s)))),
         Write (error_frame (''Run '' @ tag)) (accepts env (Suc (length (writes (trace s)))))] \<and>
      error_frame (''Run '' @ tag) =
        ''data: {"type":"error","content":"Run '' @ tag @ ''"}'' @ [CHR 0x0A, CHR 0x0A]\<close>
proof -
  let ?s' = "res_write env (error_frame (''Run '' @ tag))
       (res_write env (status_frame tag) (serve (during_get env i) (openai_get (run_url t r) s)))"
  have once: "poll_once env t r i s = Break ?s'"
    by (rule poll_once_failed [OF assms])
  then have loop: "pollRunStatus (Suc fuel) env t r i s = Break ?s'"
    by simp
  have tr: "trace ?s' = trace s @
        [Get (openai (srv s)) (run_url t r),
         Write (status_frame tag) (accepts env (length (writes (trace s)))),
         Write (error_frame (''Run '' @ tag)) (accepts env (Suc (length (writes (trace s)))))]"
    by simp
  have wire: \<open>error_frame (''Run '' @ tag) =
        ''data: {"type":"error","content":"Run '' @ tag @ ''"}'' @ [CHR 0x0A, CHR 0x0A]\<close>
    using assms(2) by (auto simp add: error_frame_def sse_def json_event_def json_quote_def json_escape_def)
  from once loop tr wire show ?thesis by blast
qed

theorem terminal_failure_emits_error_event_witness:
  \<open>\<exists>s'. poll_once (scenario [''in_progress'', ''failed'']) ''t1'' ''r1'' 1 fresh = Break s' \<and>
      pollRunStatus (Suc 0) (scenario [''in_progress'', ''failed'']) ''t1'' ''r1'' 1 fresh = Break s' \<and>
      trace s' =
        [Get (createOpenAIInstance (Some ''sk-old'')) ''/threads/t1/runs/r1'',
         Write (status_frame ''failed'') True,
         Write (error_frame ''Run failed'') True] \<and>
      error_frame ''Run failed'' =
        ''data: {"type":"error","content":"Run failed"}'' @ [CHR 0x0A, CHR 0x0A]\<close>
  using terminal_failure_emits_error_event
    [of "scenario [''in_progress'', ''failed'']" 1 "''failed''" "''t1''" "''r1''" fresh 0]
  by (simp add: scenario_def fresh_def boot_def run_url_def)

section \<open>Completion\<close>

lemma message_frame_text:
  \<open>message_frame v = ''data: {"type":"message","content":'' @ json_quote v @ ''}'' @ [CHR 0x0A, CHR 0x0A]\<close>
  by (simp add: message_frame_def sse_def json_event_def json_quote_message)

text \<open>
  C3, as amended.  When the GET of a poll returns \<open>completed\<close>, the message list that is
  fetched next is non-empty and the first content block of its first message is a text
  block, that pass writes the status frame, fetches the list, writes one message frame whose
  content is the text value of that block, and leaves the loop through \<open>break\<close>.  The frame
  determines the text: different texts have different frames.
\<close>

theorem completed_emits_first_text_block:
  assumes "run_results env i = Inr ''completed''"
    and "messages_result env = Inr (m # ms)"
    and "content m = TextBlock v # blocks"
  shows "\<exists>s' c b b'. poll_once env t r i s = Break s' \<and>
      pollRunStatus (Suc fuel) env t r i s = Break s' \<and>
      trace s' = trace s @
        [Get (openai (srv s)) (run_url t r), Write (status_frame ''completed'') b,
         Get c (messages_url t), Write (message_frame v) b'] \<and>
      inj message_frame"
proof -
  have first_text: "latest_text (m # ms) = Inr v"
    using assms(3) by (simp add: latest_text_def)
  let ?s3 = "serve (during_messages_get env) (openai_get (messages_url t)
                 (res_write env (status_frame ''completed'')
                    (serve (during_get env i) (openai_get (run_url t r) s))))"
  have once: "poll_once env t r i s = Break (res_write env (message_frame v) ?s3)"
    using poll_once_completed [OF assms(1), of t r s] assms(2) first_text by simp
  then have loop: "pollRunStatus (Suc fuel) env t r i s = Break (res_write env (message_frame v) ?s3)"
    by simp
  have "inj message_frame"
    by (rule injI) (rule message_frame_inject)
  then show ?thesis
    unfolding once loop by simp
qed

theorem completed_emits_first_text_block_witness:
  "\<exists>s' c b b'. poll_once (scenario [''queued'', ''completed'']) ''t1'' ''r1'' 1 fresh = Break s' \<and>
      pollRunStatus (Suc 0) (scenario [''queued'', ''completed'']) ''t1'' ''r1'' 1 fresh = Break s' \<and>
      trace s' = trace fresh @
        [Get (openai (srv fresh)) (run_url ''t1'' ''r1''), Write (status_frame ''completed'') b,
         Get c (messages_url ''t1''), Write (message_frame ''Hello'') b']"
proof -
  have poll: "run_results (scenario [''queued'', ''completed'']) 1 = Inr ''completed''"
    by (simp add: scenario_def)
  have list: "messages_result (scenario [''queued'', ''completed'']) =
      Inr (\<lparr>content = [TextBlock ''Hello'']\<rparr> # [])"
    by (simp add: scenario_def)
  have block: "content \<lparr>content = [TextBlock ''Hello'']\<rparr> = TextBlock ''Hello'' # []"
    by simp
  from completed_emits_first_text_block [OF poll list block, of "''t1''" "''r1''" fresh 0]
  show ?thesis by blast
qed

text \<open>
  C3 as stated asks only for a non-empty list.  With an image block before the text block
  in the newest message, \<open>content[0].text\<close> is undefined: the pass throws a TypeError after
  the GET of the list, and no message frame is written.
\<close>

theorem image_first_counterexample:
  "messages_result image_first = Inr [\<lparr>content = [OtherBlock ''image_file'', TextBlock ''Hello'']\<rparr>] \<and>
   run_results image_first 0 = Inr ''completed'' \<and>
   poll_once image_first ''t1'' ''r1'' 0 fresh =
     Throw (TypeError ''Cannot read properties of undefined (reading value)'')
       \<lparr>srv = boot (Some ''sk-old''),
        trace = [Get (createOpenAIInstance (Some ''sk-old'')) ''/threads/t1/runs/r1'',
                 Write (status_frame ''completed'') True,
                 Get (createOpenAIInstance (Some ''sk-old'')) ''/threads/t1/messages'']\<rparr>"
  by (simp add: image_first_def scenario_def poll_once_def fresh_def latest_text_def boot_def
      openai_get_def res_write_def serve_def emit_def run_url_def messages_url_def)

section \<open>Runs that reach a terminal status\<close>

lemma status_frames_not_terminal:
  "filter is_terminal_frame (map status_frame tags) = []"
  by (induction tags) (simp_all add: is_terminal_frame_def)

lemma status_frames_not_done:
  "done_frame \<notin> set (map status_frame tags)"
  by (induction tags) (auto dest: sym)

lemma terminal_frame_kind [simp]:
  "is_terminal_frame (terminal_frame final text)" "terminal_frame final text \<noteq> done_frame"
  by (simp_all add: terminal_frame_def is_terminal_frame_def)

lemma poll_once_terminal:
  assumes "run_results env i = Inr final" and "is_terminal final"
    and "final = ''completed'' \<longrightarrow> messages_result env = Inr (m # ms) \<and> content m = TextBlock text # blocks"
  shows "\<exists>s'. poll_once env t r i s = Break s' \<and>
     writes (trace s') = writes (trace s) @ [status_frame final, terminal_frame final text] \<and>
     (End \<in> set (trace s') \<longleftrightarrow> End \<in> set (trace s))"
proof (cases "final = ''completed''")
  case True
  with assms(3) have msgs: "messages_result env = Inr (m # ms)" "latest_text (m # ms) = Inr text"
    by (simp_all add: latest_text_def)
  show ?thesis
    using poll_once_completed [of env i t r s] assms(1) msgs True
    by (simp add: terminal_frame_def)
next
  case False
  with assms(2) have "final = ''failed'' \<or> final = ''cancelled'' \<or> final = ''expired''"
    by (simp add: is_terminal_def)
  from poll_once_failed [OF assms(1) this, of t r s] False show ?thesis
    by (simp add: terminal_frame_def)
qed

lemma loop_reaches_terminal:
  assumes polls: "\<forall>j<length (pre @ [final]). run_results env (i + j) = Inr ((pre @ [final]) ! j)"
    and running: "\<forall>tag\<in>set pre. \<not> is_terminal tag"
    and final: "is_terminal final"
    and msgs: "final = ''completed'' \<longrightarrow> messages_result env = Inr (m # ms) \<and> content m = TextBlock text # blocks"
    and fuel: "length pre < fuel"
  shows "\<exists>s'. pollRunStatus fuel env t r i s = Break s' \<and>
     writes (trace s') = writes (trace s) @ map status_frame (pre @ [final]) @ [terminal_frame final text] \<and>
     (End \<in> set (trace s') \<longleftrightarrow> End \<in> set (trace s))"
proof -
  have before: "\<forall>j<length pre. run_results env (i + j) = Inr (pre ! j)"
    using polls by (auto simp add: nth_append)
  have last: "run_results env (i + length pre) = Inr final"
    using polls by (auto simp add: nth_append)
  from running_prefix [OF before running, of t r s] obtain s1 where
    s1: "pollRunStatus (length pre) env t r i s = Continue s1"
      "writes (trace s1) = writes (trace s) @ map status_frame pre"
      "(End \<in> set (trace s1) \<longleftrightarrow> End \<in> set (trace s))"
    by blast
  from poll_once_terminal [OF last final msgs, of t r s1] obtain s2 where
    s2: "poll_once env t r (i + length pre) s1 = Break s2"
      "writes (trace s2) = writes (trace s1) @ [status_frame final, terminal_frame final text]"
      "(End \<in> set (trace s2) \<longleftrightarrow> End \<in> set (trace s1))"
    by blast
  from fuel obtain k where k: "fuel = length pre + Suc k"
    by (metis less_imp_Suc_add add_Suc_right)
  have "pollRunStatus fuel env t r i s = Break s2"
    unfolding k pollRunStatus_add using s1(1) s2(1) by simp
  with s1 s2 show ?thesis by simp
qed

text \<open>
  C1, as amended.  Let the polls return the tags \<open>pre @ [final]\<close>, none of \<open>pre\<close> terminal and
  \<open>final\<close> terminal, and, when \<open>final\<close> is \<open>completed\<close>, let the message list be fetched with a
  text block first in its first message.  Then, given more polls than \<open>pre\<close> is long, the
  route returns normally: it has written one status frame per poll and exactly one terminal
  frame (the message on \<open>completed\<close>, the error otherwise), then the \<open>[DONE]\<close> line once, and
  then ended the response; nothing follows the sentinel but \<open>res.end\<close>.
\<close>

theorem terminal_run_emits_one_event_then_done:
  assumes "\<forall>j<length (pre @ [final]). run_results env j = Inr ((pre @ [final]) ! j)"
    and "\<forall>tag\<in>set pre. \<not> is_terminal tag"
    and "is_terminal final"
    and "final = ''completed'' \<longrightarrow>
           messages_result env = Inr (m # ms) \<and> content m = TextBlock text # blocks"
    and "length pre < fuel"
  shows "\<exists>s' tr b. stream_run_route fuel env t r sv = Some (Inr (), s') \<and>
      trace s' = tr @ [Write done_frame b, End] \<and>
      writes tr = map status_frame (pre @ [final]) @
        [if final = ''completed'' then message_frame text else error_frame (''Run '' @ final)] \<and>
      filter is_terminal_frame (writes tr) =
        [if final = ''completed'' then message_frame text else error_frame (''Run '' @ final)] \<and>
      done_frame \<notin> set (writes tr) \<and> End \<notin> set tr"
proof -
  let ?s0 = "emit (WriteHead 200 [(''Content-Type'', ''text/event-stream''),
                                    (''Cache-Control'', ''no-cache''),
                                    (''Connection'', ''keep-alive'')]) \<lparr>srv = sv, trace = []\<rparr>"
  have polls: "\<forall>j<length (pre @ [final]). run_results env (0 + j) = Inr ((pre @ [final]) ! j)"
    using assms(1) by simp
  from loop_reaches_terminal [OF polls assms(2-5), of t r ?s0] obtain s2 where
    s2: "pollRunStatus fuel env t r 0 ?s0 = Break s2"
      "writes (trace s2) = map status_frame (pre @ [final]) @ [terminal_frame final text]"
      "End \<notin> set (trace s2)"
    by auto
  let ?b = "accepts env (length (writes (trace s2)))"
  let ?s' = "emit End (res_write env done_frame s2)"
  have route: "stream_run_route fuel env t r sv = Some (Inr (), ?s')"
    using s2(1) by (simp add: stream_run_route_def stream_run_def stream_run_steps_def asyncHandler_def)
  have shape: "trace ?s' = trace s2 @ [Write done_frame ?b, End]"
    by simp
  have one: "filter is_terminal_frame (writes (trace s2)) = [terminal_frame final text]"
    unfolding s2(2) by (simp add: status_frames_not_terminal del: map_append)
  have no_done: "done_frame \<notin> set (writes (trace s2))"
    unfolding s2(2) using status_frames_not_done [of "pre @ [final]"]
    by (auto simp del: map_append dest: sym)
  from route shape s2(2,3) one no_done show ?thesis
    unfolding terminal_frame_def by blast
qed

theorem terminal_run_emits_one_event_then_done_witness:
  "\<exists>s' tr b. stream_run_route 5 (scenario [''queued'', ''in_progress'', ''completed'']) ''t1'' ''r1''
        (boot (Some ''sk-old'')) = Some (Inr (), s') \<and>
      trace s' = tr @ [Write done_frame b, End] \<and>
      writes tr = [status_frame ''queued'', status_frame ''in_progress'', status_frame ''completed'',
                   message_frame ''Hello''] \<and>
      filter is_terminal_frame (writes tr) = [message_frame ''Hello''] \<and>
      done_frame \<notin> set (writes tr) \<and> End \<notin> set tr"
  using terminal_run_emits_one_event_then_done
    [of "[''queued'', ''in_progress'']" "''completed''" "scenario [''queued'', ''in_progress'', ''completed'']"
        "\<lparr>content = [TextBlock ''Hello'']\<rparr>" "[]" "''Hello''" "[]" 5 "''t1''" "''r1''" "boot (Some ''sk-old'')"]
  by (simp add: scenario_def is_terminal_def)

text \<open>
  C1 as stated covers every run that reaches a terminal tag.  A run that is \<open>completed\<close> at
  the first poll on a thread without messages reaches one, yet \<open>messages[0].content\<close> throws:
  the response holds the status frame only, no message frame, no \<open>[DONE]\<close> line, and
  \<open>res.end\<close> is never called.
\<close>

theorem empty_thread_counterexample:
  "run_results empty_thread 0 = Inr ''completed'' \<and>
   stream_run_route 3 empty_thread ''t1'' ''r1'' (boot (Some ''sk-old'')) =
     Some (Inl (Error ''Cannot set headers after they are sent to the client''),
       \<lparr>srv = boot (Some ''sk-old''),
        trace = [WriteHead 200 [(''Content-Type'', ''text/event-stream''),
                                (''Cache-Control'', ''no-cache''),
                                (''Connection'', ''keep-alive'')],
                 Get (createOpenAIInstance (Some ''sk-old'')) ''/threads/t1/runs/r1'',
                 Write (status_frame ''completed'') True,
                 Get (createOpenAIInstance (Some ''sk-old'')) ''/threads/t1/messages'',
                 ConsoleError ''Cannot read properties of undefined (reading content)'']\<rparr>)"
  by (simp add: empty_thread_def scenario_def stream_run_route_def stream_run_def
      stream_run_steps_def asyncHandler_def
      errorHandler_def headersSent_def numeral_3_eq_3 poll_once_def latest_text_def boot_def
      openai_get_def res_write_def serve_def emit_def run_url_def messages_url_def TypeError_def)

section \<open>Runs that never reach a terminal status\<close>

lemma poll_once_Continue_last:
  "poll_once env t r i s = Continue s' \<Longrightarrow> last (trace s') = Sleep 1000"
  by (auto simp add: poll_once_def Let_def split: sum.splits if_splits)

lemma pollRunStatus_Continue_last:
  "pollRunStatus (Suc n) env t r i s = Continue s' \<Longrightarrow> last (trace s') = Sleep 1000"
proof -
  assume run: "pollRunStatus (Suc n) env t r i s = Continue s'"
  have "pollRunStatus (n + 1) env t r i s = Continue s'" using run by simp
  then obtain s1 where "pollRunStatus n env t r i s = Continue s1"
    and "pollRunStatus 1 env t r (i + n) s1 = Continue s'"
    unfolding pollRunStatus_add by (auto split: step.splits)
  then have "poll_once env t r (i + n) s1 = Continue s'"
    by (simp split: step.splits)
  then show ?thesis by (rule poll_once_Continue_last)
qed

lemma poll_once_starts_with_get:
  "\<exists>rest. trace (step_state (poll_once env t r i s)) = trace s @ Get (openai (srv s)) (run_url t r) # rest"
  by (auto simp add: poll_once_def Let_def split: sum.splits)

lemma returned_statuses_all:
  assumes "\<forall>j. run_results env j = Inr (tag_of j)"
  shows "returned_statuses env i m = map tag_of [i..<i + m]"
proof -
  have "(\<lambda>j. case run_results env j of Inl err \<Rightarrow> [] | Inr tag \<Rightarrow> [tag]) = (\<lambda>j. [tag_of j])"
    using assms by (simp add: fun_eq_iff)
  then show ?thesis
    by (simp add: returned_statuses_def)
qed

text \<open>
  C8.  Let every poll return a tag that is none of the four terminal tags (an unknown tag
  included).  Then the route never settles, whatever the number \<open>n\<close> of polls granted, and
  the route function itself, started on a fresh response and run for \<open>n\<close> polls, is
  suspended inside the loop: it has issued \<open>n\<close> GETs of the run and awaited \<open>n\<close> timers of
  1000 ms, it has written the status frames of the \<open>n\<close> tags and no \<open>[DONE]\<close> line, it has
  not ended the response, and what it does next, right after the timer, is GET number
  \<open>n + 1\<close>.
\<close>

theorem nonterminal_run_polls_forever:
  assumes "\<forall>i. \<exists>tag. run_results env i = Inr tag \<and> \<not> is_terminal tag"
  shows "stream_run_route n env t r sv = None \<and>
     (\<exists>s'. stream_run_steps n env t r \<lparr>srv = sv, trace = []\<rparr> = Continue s' \<and>
        map snd (gets (trace s')) = replicate n (run_url t r) \<and>
        sleeps (trace s') = replicate n 1000 \<and>
        writes (trace s') = map status_frame (returned_statuses env 0 n) \<and>
        done_frame \<notin> set (writes (trace s')) \<and>
        End \<notin> set (trace s') \<and>
        (0 < n \<longrightarrow> last (trace s') = Sleep 1000) \<and>
        (\<exists>s'' c rest. stream_run_steps (Suc n) env t r \<lparr>srv = sv, trace = []\<rparr> = Continue s'' \<and>
            trace s'' = trace s' @ Get c (run_url t r) # rest))"
proof -
  let ?s0 = "emit (WriteHead 200 [(''Content-Type'', ''text/event-stream''),
                                    (''Cache-Control'', ''no-cache''),
                                    (''Connection'', ''keep-alive'')]) \<lparr>srv = sv, trace = []\<rparr>"
  from assms obtain tag_of where
    tag_of: "\<forall>i. run_results env i = Inr (tag_of i) \<and> \<not> is_terminal (tag_of i)"
    by metis
  define pre where "pre = map tag_of [0..<n]"
  have len: "length pre = n" by (simp add: pre_def)
  have polls: "\<forall>j<length pre. run_results env (0 + j) = Inr (pre ! j)"
    using tag_of by (simp add: pre_def)
  have running: "\<forall>tag\<in>set pre. \<not> is_terminal tag"
    using tag_of by (auto simp add: pre_def)
  have returned: "returned_statuses env 0 n = pre"
    using returned_statuses_all [of env tag_of 0 n] tag_of by (simp add: pre_def)
  from running_prefix [OF polls running, of t r ?s0] obtain s' where
    s': "pollRunStatus n env t r 0 ?s0 = Continue s'"
      "writes (trace s') = map status_frame pre"
      "sleeps (trace s') = replicate n 1000"
      "map snd (gets (trace s')) = replicate n (run_url t r)"
      "End \<notin> set (trace s')"
    unfolding len by auto
  have steps: "stream_run_steps n env t r \<lparr>srv = sv, trace = []\<rparr> = Continue s'"
    using s'(1) by (simp add: stream_run_steps_def)
  then have never: "stream_run_route n env t r sv = None"
    by (simp add: stream_run_route_def stream_run_def)
  have no_done: "done_frame \<notin> set (writes (trace s'))"
    unfolding s'(2) by (rule status_frames_not_done)
  have slept: "0 < n \<longrightarrow> last (trace s') = Sleep 1000"
  proof
    assume "0 < n"
    then obtain k where "n = Suc k" by (cases n) simp_all
    with s'(1) show "last (trace s') = Sleep 1000"
      using pollRunStatus_Continue_last by blast
  qed
  from tag_of have here: "run_results env n = Inr (tag_of n)" "\<not> is_terminal (tag_of n)"
    by simp_all
  define s'' where "s'' = serve (during_sleep env n) (emit (Sleep 1000)
       (res_write env (status_frame (tag_of n)) (serve (during_get env n) (openai_get (run_url t r) s'))))"
  have once: "poll_once env t r n s' = Continue s''"
    unfolding s''_def by (rule poll_once_running [OF here])
  have "pollRunStatus (n + 1) env t r 0 ?s0 = Continue s''"
    unfolding pollRunStatus_add using s'(1) once by simp
  then have next_steps: "stream_run_steps (Suc n) env t r \<lparr>srv = sv, trace = []\<rparr> = Continue s''"
    by (simp add: stream_run_steps_def)
  have next_trace: "trace s'' = trace s' @ Get (openai (srv s')) (run_url t r) #
      [Write (status_frame (tag_of n)) (accepts env (length (writes (trace s')))), Sleep 1000]"
    by (simp add: s''_def)
  from never steps s'(2-5) no_done slept next_steps next_trace show ?thesis
    unfolding returned by blast
qed

theorem nonterminal_run_polls_forever_witness:
  "stream_run_route 3 (scenario []) ''t1'' ''r1'' (boot (Some ''sk-old'')) = None \<and>
     (\<exists>s'. stream_run_steps 3 (scenario []) ''t1'' ''r1'' \<lparr>srv = boot (Some ''sk-old''), trace = []\<rparr>
             = Continue s' \<and>
        map snd (gets (trace s')) = replicate 3 (run_url ''t1'' ''r1'') \<and>
        sleeps (trace s') = replicate 3 1000 \<and>
        writes (trace s') = map status_frame (returned_statuses (scenario []) 0 3) \<and>
        done_frame \<notin> set (writes (trace s')) \<and>
        End \<notin> set (trace s') \<and>
        last (trace s') = Sleep 1000 \<and>
        (\<exists>s'' c rest. stream_run_steps (Suc 3) (scenario []) ''t1'' ''r1''
              \<lparr>srv = boot (Some ''sk-old''), trace = []\<rparr> = Continue s'' \<and>
            trace s'' = trace s' @ Get c (run_url ''t1'' ''r1'') # rest))"
proof -
  have running: "\<forall>i. \<exists>tag. run_results (scenario []) i = Inr tag \<and> \<not> is_terminal tag"
    by (simp add: scenario_def is_terminal_def)
  from nonterminal_run_polls_forever [OF running, of 3 "''t1''" "''r1''" "boot (Some ''sk-old'')"]
  show ?thesis by simp
qed

section \<open>Failures inside the loop\<close>




lemma returned_statuses_one:
  "returned_statuses env i (Suc 0) = (case run_results env i of Inl err \<Rightarrow> [] | Inr tag \<Rightarrow> [tag])"
  by (simp add: returned_statuses_def)




section \<open>One status frame per poll\<close>

lemma returned_statuses_Suc:
  "returned_statuses env i (Suc m) = returned_statuses env i (Suc 0) @ returned_statuses env (Suc i) m"
proof -
  have "[i..<i + Suc m] = i # [Suc i..<Suc i + m]"
    by (simp add: upt_conv_Cons)
  then show ?thesis
    by (simp add: returned_statuses_def)
qed

lemma polls_append [simp]: "polls t r (xs @ ys) = polls t r xs + polls t r ys"
  by (simp add: polls_def)

lemma polls_simps [simp]:
  "polls t r [] = 0"
  "polls t r (Get c url # es) = (if url = run_url t r then 1 else 0) + polls t r es"
  "polls t r (Write chunk b # es) = polls t r es"
  "polls t r (Sleep ms # es) = polls t r es"
  by (simp_all add: polls_def)

lemma poll_once_after_status:
  assumes "run_results env i = Inr tag"
  shows "\<exists>rest. trace (step_state (poll_once env t r i s)) =
           trace s @ Get (openai (srv s)) (run_url t r) #
             Write (status_frame tag) (accepts env (length (writes (trace s)))) # rest \<and>
         filter is_status_frame (writes rest) = [] \<and> polls t r rest = 0"
proof (cases "is_terminal tag")
  case False
  from poll_once_running [OF assms False, of t r s] show ?thesis by simp
next
  case True
  show ?thesis
  proof (cases "tag = ''completed''")
    case False
    with True have "tag = ''failed'' \<or> tag = ''cancelled'' \<or> tag = ''expired''"
      by (simp add: is_terminal_def)
    from poll_once_failed [OF assms this, of t r s] show ?thesis by simp
  next
    case True
    with assms have "run_results env i = Inr ''completed''" by simp
    from poll_once_completed [OF this, of t r s] True show ?thesis
      by (simp add: Let_def split: sum.splits)
  qed
qed

lemma poll_once_counts:
  "polls t r (trace (step_state (poll_once env t r i s))) = polls t r (trace s) + 1 \<and>
   filter is_status_frame (writes (trace (step_state (poll_once env t r i s)))) =
     filter is_status_frame (writes (trace s)) @ map status_frame (returned_statuses env i (Suc 0))"
proof (cases "run_results env i")
  case (Inl err)
  then show ?thesis by (simp add: poll_once_rejected returned_statuses_one)
next
  case (Inr tag)
  from poll_once_after_status [OF Inr, of t r s] obtain rest where
    "trace (step_state (poll_once env t r i s)) =
           trace s @ Get (openai (srv s)) (run_url t r) #
             Write (status_frame tag) (accepts env (length (writes (trace s)))) # rest"
    "filter is_status_frame (writes rest) = []" "polls t r rest = 0"
    by blast
  then show ?thesis
    using Inr by (simp add: returned_statuses_one)
qed

lemma pollRunStatus_counts:
  "\<exists>m. polls t r (trace (step_state (pollRunStatus n env t r i s))) = polls t r (trace s) + m \<and>
     filter is_status_frame (writes (trace (step_state (pollRunStatus n env t r i s)))) =
       filter is_status_frame (writes (trace s)) @ map status_frame (returned_statuses env i m)"
proof (induction n arbitrary: i s)
  case 0
  have "returned_statuses env i 0 = []" by (simp add: returned_statuses_def)
  then show ?case by (intro exI [of _ 0]) simp
next
  case (Suc n)
  note once = poll_once_counts [of t r env i s]
  show ?case
  proof (cases "poll_once env t r i s")
    case (Continue s1)
    from Suc.IH [of "Suc i" s1] obtain m where
      m: "polls t r (trace (step_state (pollRunStatus n env t r (Suc i) s1))) = polls t r (trace s1) + m"
        "filter is_status_frame (writes (trace (step_state (pollRunStatus n env t r (Suc i) s1)))) =
           filter is_status_frame (writes (trace s1)) @ map status_frame (returned_statuses env (Suc i) m)"
      by blast
    show ?thesis
      using Continue once m
      by (intro exI [of _ "Suc m"]) (simp add: returned_statuses_Suc [of env i m])
  next
    case (Break s1)
    then show ?thesis using once by (intro exI [of _ "Suc 0"]) simp
  next
    case (Throw err s1)
    then show ?thesis using once by (intro exI [of _ "Suc 0"]) simp
  qed
qed

text \<open>
  C2.  A pass of the loop whose GET returns a tag writes the status frame of exactly that
  tag right after the GET, before the message GET, the terminal frame or the timer of the
  same pass, and writes no other status frame.  Over the whole loop, however it ends and
  however long it runs: if \<open>m\<close> polls have been issued, the status frames in the response
  are those of the tags these \<open>m\<close> polls returned, one each, in poll order.  The frame
  determines the tag: different tags have different frames.
\<close>

theorem one_status_event_per_poll:
  "(run_results env i = Inr tag \<longrightarrow>
      (\<exists>rest. trace (step_state (poll_once env t r i s)) =
           trace s @ Get (openai (srv s)) (run_url t r) #
             Write (status_frame tag) (accepts env (length (writes (trace s)))) # rest \<and>
         filter is_status_frame (writes rest) = [])) \<and>
   (\<exists>m. polls t r (trace (step_state (pollRunStatus n env t r i s))) = polls t r (trace s) + m \<and>
      filter is_status_frame (writes (trace (step_state (pollRunStatus n env t r i s)))) =
        filter is_status_frame (writes (trace s)) @ map status_frame (returned_statuses env i m)) \<and>
   inj status_frame"
proof -
  have "inj status_frame"
    by (rule injI) (rule status_frame_inject)
  with poll_once_after_status [of env i tag t r s] pollRunStatus_counts [of t r n env i s]
  show ?thesis by blast
qed

theorem one_status_event_per_poll_witness:
  "(\<exists>rest. trace (step_state (poll_once (scenario [''queued'', ''in_progress'', ''completed'']) ''t1'' ''r1'' 1 fresh)) =
           trace fresh @ Get (openai (srv fresh)) (run_url ''t1'' ''r1'') #
             Write (status_frame ''in_progress'') True # rest \<and>
         filter is_status_frame (writes rest) = []) \<and>
   (\<exists>m. polls ''t1'' ''r1'' (trace (step_state (pollRunStatus 5 (scenario [''queued'', ''in_progress'', ''completed'']) ''t1'' ''r1'' 0 fresh)))
          = polls ''t1'' ''r1'' (trace fresh) + m \<and>
      filter is_status_frame (writes (trace (step_state (pollRunStatus 5 (scenario [''queued'', ''in_progress'', ''completed'']) ''t1'' ''r1'' 0 fresh)))) =
        filter is_status_frame (writes (trace fresh)) @
          map status_frame (returned_statuses (scenario [''queued'', ''in_progress'', ''completed'']) 0 m))"
proof -
  have here: "run_results (scenario [''queued'', ''in_progress'', ''completed'']) 1 = Inr ''in_progress''"
    by (simp add: scenario_def)
  have quiet: "accepts (scenario [''queued'', ''in_progress'', ''completed'']) k = True" for k
    by (simp add: scenario_def)
  from one_status_event_per_poll
    [of "scenario [''queued'', ''in_progress'', ''completed'']" 1 "''in_progress''" "''t1''" "''r1''" fresh 5]
    one_status_event_per_poll
    [of "scenario [''queued'', ''in_progress'', ''completed'']" 0 "''queued''" "''t1''" "''r1''" fresh 5]
    here quiet
  show ?thesis by simp
qed

section \<open>A client that disconnects\<close>

lemma gets_unanswered [simp]: "gets (map unanswered tr) = gets tr"
  by (induction tr rule: gets.induct) simp_all

lemma sleeps_unanswered [simp]: "sleeps (map unanswered tr) = sleeps tr"
  by (induction tr rule: sleeps.induct) simp_all

lemma writes_unanswered [simp]: "writes (map unanswered tr) = writes tr"
  by (induction tr rule: writes.induct) simp_all

lemma blank_simps [simp]:
  "trace (blank s) = map unanswered (trace s)" "srv (blank s) = srv s"
  by (simp_all add: blank_def)

lemma blank_emit: "blank (emit e s) = emit (unanswered e) (blank s)"
  by (simp add: blank_def emit_def)

lemma blank_serve: "blank (serve bodies s) = serve bodies (blank s)"
  by (simp add: blank_def serve_def)

lemma blank_openai_get: "blank (openai_get url s) = openai_get url (blank s)"
  by (simp add: blank_def openai_get_def emit_def)

lemma blank_res_write: "blank (res_write env chunk s) = emit (Write chunk True) (blank s)"
  by (simp add: blank_def res_write_def emit_def)

lemmas blank_push = blank_emit blank_serve blank_openai_get blank_res_write

lemma poll_once_blank:
  assumes "blank s1 = blank s2"
  shows "map_step blank (poll_once (env\<lparr>accepts := a\<rparr>) t r i s1) =
         map_step blank (poll_once (env\<lparr>accepts := b\<rparr>) t r i s2)"
  using assms
  by (simp add: poll_once_def Let_def blank_push split: sum.splits)

lemma pollRunStatus_blank:
  "blank s1 = blank s2 \<Longrightarrow>
   map_step blank (pollRunStatus n (env\<lparr>accepts := a\<rparr>) t r i s1) =
   map_step blank (pollRunStatus n (env\<lparr>accepts := b\<rparr>) t r i s2)"
proof (induction n arbitrary: i s1 s2)
  case 0
  then show ?case by simp
next
  case (Suc n)
  from poll_once_blank [OF Suc.prems]
  have "map_step blank (poll_once (env\<lparr>accepts := a\<rparr>) t r i s1) =
        map_step blank (poll_once (env\<lparr>accepts := b\<rparr>) t r i s2)" .
  then show ?case
    by (cases "poll_once (env\<lparr>accepts := a\<rparr>) t r i s1";
        cases "poll_once (env\<lparr>accepts := b\<rparr>) t r i s2")
       (simp_all add: Suc.IH)
qed

lemma gets_blank_step: "gets (trace (step_state (map_step blank st))) = gets (trace (step_state st))"
  by (cases st) simp_all

text \<open>
  C6, as amended.  The loop never looks at what \<open>res.write\<close> returns and listens to no event
  of the response.  Two runs that differ only in what the socket answers are the same up to
  these answers: the same GETs through the same clients, the same write attempts, the same
  timers, and the same way of going on or ending.  An unwritable sink stops nothing.
\<close>

theorem sink_answers_do_not_steer_the_loop:
  "map_step blank (pollRunStatus n (env\<lparr>accepts := a\<rparr>) t r i s) =
   map_step blank (pollRunStatus n (env\<lparr>accepts := b\<rparr>) t r i s) \<and>
   gets (trace (step_state (pollRunStatus n (env\<lparr>accepts := a\<rparr>) t r i s))) =
   gets (trace (step_state (pollRunStatus n (env\<lparr>accepts := b\<rparr>) t r i s)))"
proof -
  have same: "map_step blank (pollRunStatus n (env\<lparr>accepts := a\<rparr>) t r i s) =
      map_step blank (pollRunStatus n (env\<lparr>accepts := b\<rparr>) t r i s)"
    by (rule pollRunStatus_blank) simp
  have "gets (trace (step_state (map_step blank (pollRunStatus n (env\<lparr>accepts := a\<rparr>) t r i s)))) =
      gets (trace (step_state (map_step blank (pollRunStatus n (env\<lparr>accepts := b\<rparr>) t r i s))))"
    by (simp only: same)
  then have "gets (trace (step_state (pollRunStatus n (env\<lparr>accepts := a\<rparr>) t r i s))) =
      gets (trace (step_state (pollRunStatus n (env\<lparr>accepts := b\<rparr>) t r i s)))"
    by (simp only: gets_blank_step)
  with same show ?thesis by blast
qed

text \<open>
  C6 as stated has the loop stop within one interval of the sink becoming unwritable.  Here
  the client is gone after the second status frame.  The third write is refused, and the
  loop goes on: it sleeps, polls a fourth and a fifth time, and is still running.
\<close>

theorem client_gone_counterexample:
  "pollRunStatus 5 client_gone ''t1'' ''r1'' 0 fresh =
     Continue
       \<lparr>srv = boot (Some ''sk-old''),
        trace =
          [Get (createOpenAIInstance (Some ''sk-old'')) ''/threads/t1/runs/r1'',
           Write (status_frame ''in_progress'') True, Sleep 1000,
           Get (createOpenAIInstance (Some ''sk-old'')) ''/threads/t1/runs/r1'',
           Write (status_frame ''in_progress'') True, Sleep 1000,
           Get (createOpenAIInstance (Some ''sk-old'')) ''/threads/t1/runs/r1'',
           Write (status_frame ''in_progress'') False, Sleep 1000,
           Get (createOpenAIInstance (Some ''sk-old'')) ''/threads/t1/runs/r1'',
           Write (status_frame ''in_progress'') False, Sleep 1000,
           Get (createOpenAIInstance (Some ''sk-old'')) ''/threads/t1/runs/r1'',
           Write (status_frame ''in_progress'') False, Sleep 1000]\<rparr>"
  by (simp add: client_gone_def scenario_def fresh_def eval_nat_numeral poll_once_def boot_def
      openai_get_def res_write_def serve_def emit_def run_url_def)

section \<open>Key rotation during a stream\<close>

lemma set_api_key_rotates:
  "k \<noteq> [] \<Longrightarrow> openai (snd (set_api_key_handler (Some k) sv)) = createOpenAIInstance (Some k)"
  by (simp add: set_api_key_handler_def setApiKey_def Let_def)

lemma serve_last_rotation:
  "k \<noteq> [] \<Longrightarrow> openai (srv (serve (bodies @ [Some k]) s)) = createOpenAIInstance (Some k)"
  by (simp add: set_api_key_rotates)

text \<open>
  C7, as amended.  The loop captures no client: each pass reads the module variable
  \<open>openai\<close> when it issues its GET, so the GET goes through whatever client the variable
  holds at that moment.  When the last /set-api-key request handled during the timer after
  a poll carries a non-empty key, the next poll goes through the client built from that key.
\<close>

theorem poll_goes_through_current_client:
  "(\<exists>rest. trace (step_state (poll_once env t r i s)) =
             trace s @ Get (openai (srv s)) (run_url t r) # rest) \<and>
   (run_results env i = Inr tag \<and> \<not> is_terminal tag \<and>
    during_sleep env i = bodies @ [Some k] \<and> k \<noteq> [] \<longrightarrow>
      (\<exists>s' rest. poll_once env t r i s = Continue s' \<and>
         trace (step_state (poll_once env t r (Suc i) s')) =
           trace s' @ Get (createOpenAIInstance (Some k)) (run_url t r) # rest))"
proof (intro conjI impI)
  show "\<exists>rest. trace (step_state (poll_once env t r i s)) =
             trace s @ Get (openai (srv s)) (run_url t r) # rest"
    by (rule poll_once_starts_with_get)
next
  assume rotation: "run_results env i = Inr tag \<and> \<not> is_terminal tag \<and>
    during_sleep env i = bodies @ [Some k] \<and> k \<noteq> []"
  define s' where "s' = serve (during_sleep env i) (emit (Sleep 1000)
       (res_write env (status_frame tag) (serve (during_get env i) (openai_get (run_url t r) s))))"
  from rotation have once: "poll_once env t r i s = Continue s'"
    unfolding s'_def by (simp add: poll_once_running)
  from rotation have key: "k \<noteq> []" and served: "during_sleep env i = bodies @ [Some k]"
    by simp_all
  have "openai (srv s') = createOpenAIInstance (Some k)"
    unfolding s'_def served by (rule serve_last_rotation [OF key])
  with poll_once_starts_with_get [of env t r "Suc i" s'] once
  show "\<exists>s' rest. poll_once env t r i s = Continue s' \<and>
         trace (step_state (poll_once env t r (Suc i) s')) =
           trace s' @ Get (createOpenAIInstance (Some k)) (run_url t r) # rest"
    by auto
qed

theorem poll_goes_through_current_client_witness:
  "(\<exists>rest. trace (step_state (poll_once key_rotated ''t1'' ''r1'' 0 fresh)) =
             trace fresh @ Get (openai (srv fresh)) (run_url ''t1'' ''r1'') # rest) \<and>
   (\<exists>s' rest. poll_once key_rotated ''t1'' ''r1'' 0 fresh = Continue s' \<and>
         trace (step_state (poll_once key_rotated ''t1'' ''r1'' (Suc 0) s')) =
           trace s' @ Get (createOpenAIInstance (Some ''sk-new'')) (run_url ''t1'' ''r1'') # rest)"
  using poll_goes_through_current_client
    [of key_rotated "''t1''" "''r1''" 0 fresh "''in_progress''" "[]" "''sk-new''"]
  by (simp add: key_rotated_def scenario_def is_terminal_def)

text \<open>
  C7 as stated has an in-flight stream keep the client it started with.  Here the stream
  starts with the client of \<open>sk-old\<close> and the key is replaced by \<open>sk-new\<close> during the first
  timer: the second poll goes through the client of \<open>sk-new\<close>, a different client.
\<close>

theorem key_rotated_counterexample:
  "openai (srv fresh) = createOpenAIInstance (Some ''sk-old'') \<and>
   gets (trace (step_state (pollRunStatus 2 key_rotated ''t1'' ''r1'' 0 fresh))) =
     [(createOpenAIInstance (Some ''sk-old''), ''/threads/t1/runs/r1''),
      (createOpenAIInstance (Some ''sk-new''), ''/threads/t1/runs/r1'')] \<and>
   createOpenAIInstance (Some ''sk-new'') \<noteq> createOpenAIInstance (Some ''sk-old'')"
  by (simp add: key_rotated_def scenario_def fresh_def eval_nat_numeral poll_once_def boot_def
      openai_get_def res_write_def serve_def emit_def run_url_def set_api_key_handler_def
      setApiKey_def createOpenAIInstance_def getApiKey_def template_text_def)

section \<open>Tool calls\<close>

lemma template_text_simps [simp]:
  "template_text (Some x) = x" "template_text None = ''undefined''"
  by (simp_all add: template_text_def)







section \<open>File upload\<close>

lemma OPENAI_API_KEY_free: "''OPENAI_API_KEY'' \<notin> set upload_scope"
  by (simp add: upload_scope_def index_js_bindings_def)

lemma read_OPENAI_API_KEY:
  "read_identifier uenv ''OPENAI_API_KEY'' =
     (case global_object uenv ''OPENAI_API_KEY'' of
        Absent \<Rightarrow> Inl (ReferenceError ''OPENAI_API_KEY is not defined'')
      | Text v \<Rightarrow> Inr v
      | Throwing err \<Rightarrow> Inl err)"
  using OPENAI_API_KEY_free by (simp add: read_identifier_def split: property.splits)

text \<open>
  C10, as amended.  Every upload that reaches the route function with a file while the
  global object has no property \<open>OPENAI_API_KEY\<close> fails with the error
  \<open>Failed to upload file to OpenAI\<close>, whatever the upstream would answer: building the
  headers reads \<open>OPENAI_API_KEY\<close>, which index.js does not bind (it imports \<open>setApiKey\<close>
  only), so the \<open>try\<close> block throws a ReferenceError before the POST is issued.  The trace
  shows the whole request: no POST, no deletion of the temporary file, no success response;
  \<open>errorHandler\<close> answers 500.
\<close>

theorem upload_without_global_key_fails:
  assumes \<open>req_file req = Some f\<close>
    and \<open>global_object uenv ''OPENAI_API_KEY'' = Absent\<close>
  shows \<open>upload_file uenv req s =
      (Inl (Error ''Failed to upload file to OpenAI''),
       s\<lparr>trace := trace s @
          [ConsoleLog ''File uploaded:'', CreateReadStream (path f),
           ConsoleError ''Error uploading file to OpenAI: OPENAI_API_KEY is not defined'']\<rparr>) \<and>
    upload_file_route uenv req sv =
      (Inr (),
       \<lparr>srv = sv,
        trace =
          [ConsoleLog ''File uploaded:'', CreateReadStream (path f),
           ConsoleError ''Error uploading file to OpenAI: OPENAI_API_KEY is not defined'',
           ConsoleError ''Failed to upload file to OpenAI'',
           Json 500 ''{"error":{"message":"Failed to upload file to OpenAI"}}'']\<rparr>)\<close>
proof -
  have attempt: "upload_try uenv f s0 = Inl (ReferenceError ''OPENAI_API_KEY is not defined'', s0)" for s0
    using assms(2) by (simp add: upload_try_def read_OPENAI_API_KEY)
  have handler: "upload_file uenv req s0 =
      (Inl (Error ''Failed to upload file to OpenAI''),
       s0\<lparr>trace := trace s0 @
          [ConsoleLog ''File uploaded:'', CreateReadStream (path f),
           ConsoleError ''Error uploading file to OpenAI: OPENAI_API_KEY is not defined'']\<rparr>)" for s0
    using assms(1)
    by (simp add: upload_file_def attempt Let_def emit_def ReferenceError_def)
  have quoted: \<open>json_quote ''Failed to upload file to OpenAI'' = ''"Failed to upload file to OpenAI"''\<close>
    by (simp add: json_quote_def json_escape_def)
  have route: \<open>upload_file_route uenv req sv =
      (Inr (),
       \<lparr>srv = sv,
        trace =
          [ConsoleLog ''File uploaded:'', CreateReadStream (path f),
           ConsoleError ''Error uploading file to OpenAI: OPENAI_API_KEY is not defined'',
           ConsoleError ''Failed to upload file to OpenAI'',
           Json 500 ''{"error":{"message":"Failed to upload file to OpenAI"}}'']\<rparr>)\<close>
    unfolding upload_file_route_def handler
    by (simp add: asyncHandler_def errorHandler_def Let_def emit_def headersSent_def Error_def quoted)
  from handler [of s] route show ?thesis by simp
qed

theorem upload_without_global_key_fails_witness:
  \<open>upload_file upstream_ready sample_upload fresh =
      (Inl (Error ''Failed to upload file to OpenAI''),
       fresh\<lparr>trace := trace fresh @
          [ConsoleLog ''File uploaded:'', CreateReadStream ''uploads/1.txt'',
           ConsoleError ''Error uploading file to OpenAI: OPENAI_API_KEY is not defined'']\<rparr>) \<and>
    upload_file_route upstream_ready sample_upload (boot (Some ''sk-old'')) =
      (Inr (),
       \<lparr>srv = boot (Some ''sk-old''),
        trace =
          [ConsoleLog ''File uploaded:'', CreateReadStream ''uploads/1.txt'',
           ConsoleError ''Error uploading file to OpenAI: OPENAI_API_KEY is not defined'',
           ConsoleError ''Failed to upload file to OpenAI'',
           Json 500 ''{"error":{"message":"Failed to upload file to OpenAI"}}'']\<rparr>)\<close>
proof -
  have stored: "req_file sample_upload =
      Some \<lparr>path = ''uploads/1.txt'', originalname = ''notes.txt'', mimetype = ''text/plain''\<rparr>"
    by (simp add: sample_upload_def)
  have no_key: "global_object upstream_ready ''OPENAI_API_KEY'' = Absent"
    by (simp add: upstream_ready_def)
  from upload_without_global_key_fails [OF stored no_key, of fresh "boot (Some ''sk-old'')"]
  show ?thesis by simp
qed

text \<open>
  C10 as stated has every such upload fail and the success response out of reach.  The
  identifier is free in the module, so it is looked up on the global object, and a client
  can create the property through /execute-tools.  With it the headers are built, the POST
  goes out with the client's own text as bearer key, the temporary file is deleted and the
  upstream's answer is returned with status 200.
\<close>

theorem upload_with_global_key_counterexample:
  \<open>req_file sample_upload =
      Some \<lparr>path = ''uploads/1.txt'', originalname = ''notes.txt'', mimetype = ''text/plain''\<rparr> \<and>
    upload_file_route key_on_global sample_upload (boot (Some ''sk-old'')) =
      (Inr (),
       \<lparr>srv = boot (Some ''sk-old''),
        trace =
          [ConsoleLog ''File uploaded:'', CreateReadStream ''uploads/1.txt'',
           Post (createOpenAIInstance (Some ''sk-old'')) ''/files''
             [(''content-type'', ''multipart/form-data; boundary=x''),
              (''Authorization'', ''Bearer sk-live'')],
           Unlink ''uploads/1.txt'',
           Json 200 ''{"id":"file-1"}'']\<rparr>)\<close>
  by (simp add: sample_upload_def key_on_global_def upstream_ready_def upload_file_route_def
      upload_file_def upload_try_def read_OPENAI_API_KEY asyncHandler_def emit_def boot_def
      Let_def)

end
